theory Spec2Isabelle
  imports Complex_Main
begin

section \<open>Strings and values of the host language\<close>

text \<open>
  The store is written in TypeScript. Its strings are modelled as Isabelle strings: lists of
  characters with codes 0 to 255, that is the Latin-1 range of JavaScript's code units.
  \<open>nl\<close>, \<open>sq\<close>, \<open>dq\<close> and \<open>bs\<close> are the line feed, the single quote, the double quote and
  the backslash.
\<close>

definition nl :: string where "nl = [CHR 0x0A]"
definition sq :: string where "sq = [CHR 0x27]"
definition dq :: string where "dq = [CHR 0x22]"
definition bs :: string where "bs = [CHR 0x5C]"

text \<open>\<open>Array.prototype.join\<close> on an array of strings puts the separator between neighbours.\<close>

fun join :: "string \<Rightarrow> string list \<Rightarrow> string" where
  "join sep [] = []"
| "join sep [x] = x"
| "join sep (x # y # ys) = x @ sep @ join sep (y # ys)"

text \<open>
  \<open>String.prototype.split(' ')\<close>: the pieces between every two neighbouring spaces, empty
  pieces included; the empty string gives one empty piece. \<open>acc\<close> is the piece being read.
\<close>

fun splitFrom :: "string \<Rightarrow> string \<Rightarrow> string list" where
  "splitFrom acc [] = [acc]"
| "splitFrom acc (c # cs) =
     (if c = CHR '' '' then acc # splitFrom [] cs else splitFrom (acc @ [c]) cs)"

definition split_space :: "string \<Rightarrow> string list" where
  "split_space s = splitFrom [] s"

text \<open>
  Result counts (\<open>k\<close>, \<open>kfts\<close>, \<open>kvector\<close>, the embedding dimension) are natural
  numbers. \<open>showNat\<close> is the decimal numeral of a natural number. A template literal
  prints a count in decimal as long as the count is a safe integer (at most
  \<open>2^53 - 1\<close>); see \<open>countToString\<close> below.
\<close>

definition digit :: "nat \<Rightarrow> char" where
  "digit d = ''0123456789'' ! d"

fun showNat :: "nat \<Rightarrow> string" where
  "showNat n = (if n < 10 then [digit n] else showNat (n div 10) @ [digit (n mod 10)])"

declare showNat.simps [simp del]

text \<open>
  The values a metadata record, a value list of an insert statement or a cell of a result
  row can hold: undefined, null, booleans, numbers, strings and arrays of these. The type
  \<open>'n\<close> stands for JavaScript's numbers. Nested objects are not modelled.
\<close>

datatype 'n jsvalue =
    JUndefined
  | JNull
  | JBool bool
  | JNum 'n
  | JStr string
  | JArr "'n jsvalue list"

text \<open>The exceptions the store can raise.\<close>

datatype exn =
    Error string
  | TypeError
  | SyntaxError

text \<open>
  What the language runtime does with numbers is taken as given: \<open>numToString\<close> is
  \<open>Number.prototype.toString\<close>, \<open>numIsFinite\<close> tells the finite numbers from \<open>NaN\<close> and
  the infinities, and \<open>largeCountToString\<close> is the text a template literal prints for a
  count above the safe integers (rounded digits, and exponent notation from \<open>10^21\<close> on).
\<close>

record 'n runtime =
  numToString :: "'n \<Rightarrow> string"
  numIsFinite :: "'n \<Rightarrow> bool"
  largeCountToString :: "nat \<Rightarrow> string"

text \<open>
  The text a template literal \<open>${k}\<close> prints for a count: its decimal numeral when the
  count is a safe integer, and what the runtime prints otherwise.
\<close>

definition countToString :: "'n runtime \<Rightarrow> nat \<Rightarrow> string" where
  "countToString rt n =
     (if n \<le> 9007199254740991 then showNat n else largeCountToString rt n)"

text \<open>
  The string a template literal \<open>${value}\<close> puts in place of a value. An array is its
  elements joined with a comma, where \<open>undefined\<close> and \<open>null\<close> elements give the empty
  string.
\<close>

fun toStr :: "'n runtime \<Rightarrow> 'n jsvalue \<Rightarrow> string"
  and elementsToStr :: "'n runtime \<Rightarrow> 'n jsvalue list \<Rightarrow> string list" where
  "toStr rt JUndefined = ''undefined''"
| "toStr rt JNull = ''null''"
| "toStr rt (JBool b) = (if b then ''true'' else ''false'')"
| "toStr rt (JNum n) = numToString rt n"
| "toStr rt (JStr s) = s"
| "toStr rt (JArr vs) = join '','' (elementsToStr rt vs)"
| "elementsToStr rt [] = []"
| "elementsToStr rt (v # vs) =
     (case v of JUndefined \<Rightarrow> [] | JNull \<Rightarrow> [] | _ \<Rightarrow> toStr rt v) # elementsToStr rt vs"

text \<open>
  \<open>JSON.stringify\<close>. A string is quoted with the double quote, the backslash and the
  control characters escaped; every other character, the single quote among them, is
  copied. A value that has no JSON text (\<open>undefined\<close>) gives \<open>None\<close>; inside an array it is
  written \<open>null\<close>, inside an object its key is left out.
\<close>

definition hexDigit :: "nat \<Rightarrow> char" where
  "hexDigit d = ''0123456789abcdef'' ! d"

definition quoteJSONChar :: "char \<Rightarrow> string" where
  "quoteJSONChar c =
     (if c = CHR 0x22 then bs @ dq
      else if c = CHR 0x5C then bs @ bs
      else if c = CHR 0x08 then bs @ ''b''
      else if c = CHR 0x0C then bs @ ''f''
      else if c = CHR 0x0A then bs @ ''n''
      else if c = CHR 0x0D then bs @ ''r''
      else if c = CHR 0x09 then bs @ ''t''
      else if (of_char c :: nat) < 32
        then bs @ ''u00'' @ [hexDigit (of_char c div 16), hexDigit (of_char c mod 16)]
      else [c])"

definition quoteJSONString :: "string \<Rightarrow> string" where
  "quoteJSONString s = dq @ concat (map quoteJSONChar s) @ dq"

fun JSON_value :: "'n runtime \<Rightarrow> 'n jsvalue \<Rightarrow> string option"
  and JSON_elements :: "'n runtime \<Rightarrow> 'n jsvalue list \<Rightarrow> string list" where
  "JSON_value rt JUndefined = None"
| "JSON_value rt JNull = Some ''null''"
| "JSON_value rt (JBool b) = Some (if b then ''true'' else ''false'')"
| "JSON_value rt (JNum n) = Some (if numIsFinite rt n then numToString rt n else ''null'')"
| "JSON_value rt (JStr s) = Some (quoteJSONString s)"
| "JSON_value rt (JArr vs) = Some (''['' @ join '','' (JSON_elements rt vs) @ '']'')"
| "JSON_elements rt [] = []"
| "JSON_elements rt (v # vs) =
     (case JSON_value rt v of None \<Rightarrow> ''null'' | Some s \<Rightarrow> s) # JSON_elements rt vs"

fun JSON_members :: "'n runtime \<Rightarrow> (string \<times> 'n jsvalue) list \<Rightarrow> string list" where
  "JSON_members rt [] = []"
| "JSON_members rt ((k, v) # kvs) =
     (case JSON_value rt v of
        None \<Rightarrow> JSON_members rt kvs
      | Some s \<Rightarrow> (quoteJSONString k @ '':'' @ s) # JSON_members rt kvs)"

definition JSON_stringify :: "'n runtime \<Rightarrow> (string \<times> 'n jsvalue) list \<Rightarrow> string" where
  "JSON_stringify rt obj = ''{'' @ join '','' (JSON_members rt obj) @ ''}''"

section \<open>Data model\<close>

text \<open>
  A record of metadata is the list of its own keys with their values, in the order
  \<open>Object.keys\<close> gives them; a key occurs once. \<open>rowsInterface\<close> is a row to write.
\<close>

type_synonym 'n AzionMetadata = "(string \<times> 'n jsvalue) list"

record 'n rowsInterface =
  content :: string
  embedding :: "'n list"
  metadata :: "'n AzionMetadata"

text \<open>The fields of the store object: the table, the database and the metadata mode.\<close>

record AzionVectorStore =
  tableName :: string
  dbName :: string
  expandedMetadata :: bool

text \<open>
  A filter of a query. The operators are the members of the type \<open>Operator\<close>;
  \<open>operatorText\<close> is the string each one is.
\<close>

datatype Operator =
    OpEq | OpNe | OpGt | OpLtGt | OpLt
  | OpGe | OpLe
  | OpLike | OpNotLike
  | OpIn | OpNotIn
  | OpIsNull | OpIsNotNull

fun operatorText :: "Operator \<Rightarrow> string" where
  "operatorText OpEq = ''=''"
| "operatorText OpNe = ''!=''"
| "operatorText OpGt = ''>''"
| "operatorText OpLtGt = ''<>''"
| "operatorText OpLt = ''<''"
| "operatorText OpGe = ''>=''"
| "operatorText OpLe = ''<=''"
| "operatorText OpLike = ''LIKE''"
| "operatorText OpNotLike = ''NOT LIKE''"
| "operatorText OpIn = ''IN''"
| "operatorText OpNotIn = ''NOT IN''"
| "operatorText OpIsNull = ''IS NULL''"
| "operatorText OpIsNotNull = ''IS NOT NULL''"

record AzionFilter =
  filterOperator :: Operator
  filterColumn :: string
  filterValue :: string

text \<open>
  A row of a search as \<open>mapRows\<close> decodes it, and the document the search returns for it.
  A document's \<open>id\<close> is a string or \<open>undefined\<close>.
\<close>

record 'n SearchEmbeddingsResponse =
  resp_id :: 'n
  resp_content :: string
  resp_similarity :: 'n
  resp_metadata :: "'n AzionMetadata"

record 'n Document =
  pageContent :: string
  doc_metadata :: "'n AzionMetadata"
  doc_id :: "string option"

section \<open>The collaborators\<close>

text \<open>
  The database service answers with \<open>{data, error}\<close>, either of which may be missing. The
  data of a query or of a table listing hold \<open>results\<close>, each with optional \<open>columns\<close> and
  \<open>rows\<close>; the data of a database listing hold the databases, modelled by their names.
\<close>

record AzionError =
  message :: string
  operation :: string

record 'a AzionDatabaseResponse =
  data :: "'a option"
  error :: "AzionError option"

record 'n QueryResult =
  columns :: "string list option"
  rows :: "'n jsvalue list list option"

record 'n AzionDatabaseQueryResponse =
  results :: "'n QueryResult list option"

record AzionDatabaseCollection =
  databases :: "string list option"

text \<open>
  The database service and the embeddings provider are outside the store. They are a
  record of functions over a state \<open>'w\<close> of their own, which every call may change.
\<close>

record ('w, 'n) service =
  getDatabases :: "'w \<Rightarrow> AzionDatabaseCollection AzionDatabaseResponse \<times> 'w"
  createDatabase :: "string \<Rightarrow> 'w \<Rightarrow> AzionError option \<times> 'w"
  getTables :: "string \<Rightarrow> 'w \<Rightarrow> 'n AzionDatabaseQueryResponse AzionDatabaseResponse \<times> 'w"
  useExecute :: "string \<Rightarrow> string list \<Rightarrow> 'w \<Rightarrow> AzionError option \<times> 'w"
  useQuery :: "string \<Rightarrow> string list \<Rightarrow> 'w \<Rightarrow> 'n AzionDatabaseQueryResponse AzionDatabaseResponse \<times> 'w"
  embedQuery :: "string \<Rightarrow> 'w \<Rightarrow> (exn + 'n list) \<times> 'w"

text \<open>
  \<open>errorHandler\<close> raises an \<open>Error\<close> with the message of the error it is given, and returns
  when it is given none.
\<close>

fun errorHandler :: "AzionError option \<Rightarrow> string \<Rightarrow> exn + unit" where
  "errorHandler None msg = Inr ()"
| "errorHandler (Some err) msg = Inl (Error (message err))"

section \<open>Schema provisioner\<close>

text \<open>
  The calls the provisioner makes to its collaborators are kept in a log beside the
  collaborators' state, in the order they are made. The wait of fifteen seconds between
  the two steps of \<open>setupDatabase\<close> and the console output are not modelled.
\<close>

datatype call =
    GetDatabases
  | CreateDatabase string
  | GetTables string
  | EmbedQuery string
  | UseExecute string "string list"

datatype mode = Vector | Hybrid

definition databaseListed :: "AzionVectorStore \<Rightarrow> AzionDatabaseCollection option \<Rightarrow> bool" where
  "databaseListed store dataGet =
     (case dataGet of
        None \<Rightarrow> False
      | Some d \<Rightarrow> (case databases d of None \<Rightarrow> False | Some names \<Rightarrow> dbName store \<in> set names))"

definition handleDatabase ::
  "AzionVectorStore \<Rightarrow> ('w, 'n) service \<Rightarrow> 'w \<times> call list \<Rightarrow> (exn + unit) \<times> 'w \<times> call list" where
  "handleDatabase store svc s =
     (let (resp, w1) = getDatabases svc (fst s);
          log1 = snd s @ [GetDatabases]
      in case errorHandler (error resp) ''Error getting databases'' of
           Inl e \<Rightarrow> (Inl e, w1, log1)
         | Inr _ \<Rightarrow>
             if \<not> databaseListed store (data resp)
             then (let (errorCreate, w2) = createDatabase svc (dbName store) w1
                   in (errorHandler errorCreate ''Error creating database'',
                       w2, log1 @ [CreateDatabase (dbName store)]))
             else (Inr (), w1, log1))"

text \<open>
  The part of the schema statements that depends on the metadata mode: in expanded mode
  a comma and the columns, each written by \<open>f\<close>, joined with commas (nothing when there
  are no columns); in plain mode the text \<open>plain\<close>.
\<close>

definition columnsPart ::
  "AzionVectorStore \<Rightarrow> string list \<Rightarrow> (string \<Rightarrow> string) \<Rightarrow> string \<Rightarrow> string" where
  "columnsPart store cols f plain =
     (if expandedMetadata store
      then (if length cols > 0 then '','' @ join '','' (map f cols) else [])
      else plain)"

text \<open>
  The dimension written into the table statement is the length of the embedding of
  \<open>test\<close>. The length of an array is below \<open>2^32\<close>, a safe integer, so it is printed in
  decimal.
\<close>

definition createTableStatement :: "AzionVectorStore \<Rightarrow> string list \<Rightarrow> nat \<Rightarrow> string" where
  "createTableStatement store cols dimensions =
     nl @ ''        CREATE TABLE '' @ tableName store @ '' ('' @ nl
     @ ''            id INTEGER PRIMARY KEY AUTOINCREMENT,'' @ nl
     @ ''            content TEXT NOT NULL,'' @ nl
     @ ''            embedding F32_BLOB('' @ showNat dimensions @ '')'' @ nl
     @ ''            '' @ columnsPart store cols (\<lambda>key. key @ '' TEXT'') '',metadata JSON''
     @ nl @ ''        );''"

definition createIndexStatement :: "AzionVectorStore \<Rightarrow> string" where
  "createIndexStatement store =
     nl @ ''        CREATE INDEX '' @ tableName store @ ''_idx ON '' @ tableName store
     @ '' ('' @ nl @ ''            libsql_vector_idx(embedding, '' @ sq @ ''metric=cosine'' @ sq
     @ '', '' @ sq @ ''compress_neighbors=float8'' @ sq @ '', '' @ sq @ ''max_neighbors=20''
     @ sq @ '')'' @ nl @ ''        )''"

definition createFtsStatement :: "AzionVectorStore \<Rightarrow> string list \<Rightarrow> string" where
  "createFtsStatement store cols =
     nl @ ''        CREATE VIRTUAL TABLE IF NOT EXISTS '' @ tableName store
     @ ''_fts USING fts5('' @ nl @ ''            content,'' @ nl @ ''            id UNINDEXED''
     @ nl @ ''            '' @ columnsPart store cols (\<lambda>key. key) '',metadata''
     @ '','' @ nl @ ''            tokenize = '' @ sq @ ''porter'' @ sq @ nl @ ''        )''"

definition createTriggersStatements :: "AzionVectorStore \<Rightarrow> string list \<Rightarrow> string list" where
  "createTriggersStatements store cols =
     [''CREATE TRIGGER IF NOT EXISTS insert_into_'' @ tableName store @ ''_fts '' @ nl
      @ ''        AFTER INSERT ON '' @ tableName store @ nl @ ''        BEGIN'' @ nl
      @ ''            INSERT INTO '' @ tableName store @ ''_fts(id, content ''
      @ columnsPart store cols (\<lambda>key. key) '',metadata''
      @ '')'' @ nl @ ''            VALUES(new.id, new.content ''
      @ columnsPart store cols (\<lambda>key. ''new.'' @ key) '',new.metadata''
      @ '');'' @ nl @ ''        END'',
      ''CREATE TRIGGER IF NOT EXISTS update_'' @ tableName store @ ''_fts '' @ nl
      @ ''        AFTER UPDATE ON '' @ tableName store @ nl @ ''        BEGIN'' @ nl
      @ ''            UPDATE '' @ tableName store @ ''_fts '' @ nl
      @ ''            SET content = new.content'' @ nl @ ''            ''
      @ columnsPart store cols (\<lambda>key. key @ '' = new.'' @ key) '',metadata = new.metadata''
      @ nl @ ''            WHERE id = old.id;'' @ nl @ ''        END'',
      ''CREATE TRIGGER IF NOT EXISTS delete_'' @ tableName store @ ''_fts'' @ nl
      @ ''        AFTER DELETE ON '' @ tableName store @ nl @ ''        BEGIN'' @ nl
      @ ''            DELETE FROM '' @ tableName store @ ''_fts WHERE id = old.id;'' @ nl
      @ ''        END'']"

text \<open>
  \<open>setupTables\<close> asks the embeddings provider for the embedding of \<open>test\<close> to learn the
  dimension, builds the statements, keeps the first two in vector mode and executes
  them as one batch.
\<close>

definition setupTables ::
  "AzionVectorStore \<Rightarrow> ('w, 'n) service \<Rightarrow> mode \<Rightarrow> string list \<Rightarrow> 'w \<times> call list
     \<Rightarrow> (exn + unit) \<times> 'w \<times> call list" where
  "setupTables store svc m cols s =
     (let (embedded, w1) = embedQuery svc ''test'' (fst s);
          log1 = snd s @ [EmbedQuery ''test'']
      in case embedded of
           Inl e \<Rightarrow> (Inl e, w1, log1)
         | Inr vector \<Rightarrow>
             (let allStatements =
                    [createTableStatement store cols (length vector),
                     createIndexStatement store,
                     createFtsStatement store cols]
                    @ createTriggersStatements store cols;
                  batch = (if m = Vector then take 2 allStatements else allStatements);
                  (err, w2) = useExecute svc (dbName store) batch w1
              in (errorHandler err ''Error setting up tables'',
                  w2, log1 @ [UseExecute (dbName store) batch])))"

text \<open>
  The tables a listing reports: the second cell of every row of the first result, or
  \<open>None\<close> when the data, the results, the first result or its rows are missing.
\<close>

definition listedTables :: "'n AzionDatabaseQueryResponse option \<Rightarrow> 'n jsvalue list option" where
  "listedTables dataTables =
     (case dataTables of
        None \<Rightarrow> None
      | Some d \<Rightarrow>
          (case results d of
             None \<Rightarrow> None
           | Some [] \<Rightarrow> None
           | Some (first # _) \<Rightarrow>
               (case rows first of
                  None \<Rightarrow> None
                | Some rs \<Rightarrow>
                    Some (map (\<lambda>row. if 1 < length row then row ! 1 else JUndefined) rs))))"

definition areTablesSetup :: "AzionVectorStore \<Rightarrow> 'n jsvalue list option \<Rightarrow> mode \<Rightarrow> bool" where
  "areTablesSetup store tables m =
     (case tables of
        None \<Rightarrow> False
      | Some ts \<Rightarrow>
          if m = Hybrid
          then JStr (tableName store) \<in> set ts \<and> JStr (tableName store @ ''_fts'') \<in> set ts
          else JStr (tableName store) \<in> set ts)"

definition handleTables ::
  "AzionVectorStore \<Rightarrow> ('w, 'n) service \<Rightarrow> mode \<Rightarrow> string list \<Rightarrow> 'w \<times> call list
     \<Rightarrow> (exn + unit) \<times> 'w \<times> call list" where
  "handleTables store svc m cols s =
     (let (resp, w1) = getTables svc (dbName store) (fst s);
          log1 = snd s @ [GetTables (dbName store)]
      in case errorHandler (error resp) ''Error getting tables'' of
           Inl e \<Rightarrow> (Inl e, w1, log1)
         | Inr _ \<Rightarrow>
             if \<not> areTablesSetup store (listedTables (data resp)) m
             then setupTables store svc m cols (w1, log1)
             else (Inr (), w1, log1))"

definition setupDatabase ::
  "AzionVectorStore \<Rightarrow> ('w, 'n) service \<Rightarrow> string list \<Rightarrow> mode \<Rightarrow> 'w \<times> call list
     \<Rightarrow> (exn + unit) \<times> 'w \<times> call list" where
  "setupDatabase store svc cols m s =
     (case handleDatabase store svc s of
        (Inl e, s1) \<Rightarrow> (Inl e, s1)
      | (Inr _, s1) \<Rightarrow> handleTables store svc m cols s1)"

text \<open>The statement batches a log holds.\<close>

fun executedBatches :: "call list \<Rightarrow> string list list" where
  "executedBatches [] = []"
| "executedBatches (UseExecute db batch # calls) = batch # executedBatches calls"
| "executedBatches (_ # calls) = executedBatches calls"

section \<open>Statement builder: insert statements\<close>

text \<open>
  \<open>escapeQuotes\<close> replaces every single quote by a space, then every double quote by a
  space.
\<close>

definition escapeQuotes :: "string \<Rightarrow> string" where
  "escapeQuotes val =
     map (\<lambda>c. if c = CHR 0x22 then CHR '' '' else c)
       (map (\<lambda>c. if c = CHR 0x27 then CHR '' '' else c) val)"

text \<open>
  \<open>createInsertString\<close> takes its values as \<open>any[]\<close> and calls \<open>escapeQuotes\<close> on them.
  Only a string has the method \<open>replace\<close>: on any other value the call raises a
  \<open>TypeError\<close>.
\<close>

fun escapeQuotesAny :: "'n jsvalue \<Rightarrow> exn + string" where
  "escapeQuotesAny (JStr s) = Inr (escapeQuotes s)"
| "escapeQuotesAny _ = Inl TypeError"

text \<open>
  \<open>values.map((value, index) => ...)\<close> reading \<open>columnNames[index]\<close>: the callback gets the
  name at the value's index, or \<open>None\<close> where the names have run out. The first exception
  ends the map.
\<close>

fun mapValues ::
  "(string option \<Rightarrow> 'v \<Rightarrow> exn + string) \<Rightarrow> string list \<Rightarrow> 'v list \<Rightarrow> exn + string list" where
  "mapValues f columnNames [] = Inr []"
| "mapValues f columnNames (v # vs) =
     (case f (case columnNames of [] \<Rightarrow> None | c # _ \<Rightarrow> Some c) v of
        Inl e \<Rightarrow> Inl e
      | Inr s \<Rightarrow>
          (case mapValues f (drop 1 columnNames) vs of
             Inl e \<Rightarrow> Inl e
           | Inr ss \<Rightarrow> Inr (s # ss)))"

definition renderExpanded :: "'n runtime \<Rightarrow> string option \<Rightarrow> 'n jsvalue \<Rightarrow> exn + string" where
  "renderExpanded rt name val =
     (if name = Some ''embedding''
      then Inr (''vector('' @ sq @ ''['' @ toStr rt val @ '']'' @ sq @ '')'')
      else (case escapeQuotesAny val of
              Inl e \<Rightarrow> Inl e
            | Inr s \<Rightarrow> Inr (sq @ s @ sq)))"

definition renderPlain :: "'n runtime \<Rightarrow> string option \<Rightarrow> 'n jsvalue \<Rightarrow> exn + string" where
  "renderPlain rt name val =
     (if name = Some ''embedding''
      then Inr (''vector('' @ sq @ ''['' @ toStr rt val @ '']'' @ sq @ '')'')
      else if name = Some ''metadata''
      then Inr (sq @ toStr rt val @ sq)
      else (case escapeQuotesAny val of
              Inl e \<Rightarrow> Inl e
            | Inr s \<Rightarrow> Inr (sq @ s @ sq)))"

definition createInsertString ::
  "AzionVectorStore \<Rightarrow> 'n runtime \<Rightarrow> string list \<Rightarrow> 'n jsvalue list \<Rightarrow> exn + string" where
  "createInsertString store rt columnNames vals =
     (if expandedMetadata store
      then (case mapValues (renderExpanded rt) columnNames vals of
              Inl e \<Rightarrow> Inl e
            | Inr rendered \<Rightarrow>
                Inr (''INSERT INTO '' @ tableName store @ '' ('' @ join '', '' columnNames
                     @ '') '' @ nl @ ''      VALUES ('' @ join '', '' rendered @ '')''))
      else (case mapValues (renderPlain rt) columnNames vals of
              Inl e \<Rightarrow> Inl e
            | Inr rendered \<Rightarrow>
                Inr (''INSERT INTO '' @ tableName store @ '' ('' @ join '', '' columnNames
                     @ '') '' @ nl @ ''    VALUES ('' @ join '', '' rendered @ '')'')))"

text \<open>
  \<open>row.metadata?.[col] ?? null\<close>: the value under the key, \<open>undefined\<close> when the key is
  missing, and \<open>null\<close> in place of \<open>undefined\<close> and \<open>null\<close>. A row always has a metadata
  record, so the guards against a missing record never fire.
\<close>

definition lookupOrNull :: "'n AzionMetadata \<Rightarrow> string \<Rightarrow> 'n jsvalue" where
  "lookupOrNull md col =
     (case (case map_of md col of None \<Rightarrow> JUndefined | Some v \<Rightarrow> v) of
        JUndefined \<Rightarrow> JNull
      | JNull \<Rightarrow> JNull
      | v \<Rightarrow> v)"

definition createInsertStatement ::
  "AzionVectorStore \<Rightarrow> 'n runtime \<Rightarrow> 'n rowsInterface \<Rightarrow> string list \<Rightarrow> exn + string" where
  "createInsertStatement store rt row metadataColumns =
     (if expandedMetadata store
      then createInsertString store rt
             (''content'' # ''embedding'' # metadataColumns)
             (JStr (content row) # JArr (map JNum (embedding row))
                # map (lookupOrNull (metadata row)) metadataColumns)
      else createInsertString store rt
             [''content'', ''embedding'', ''metadata'']
             [JStr (content row), JArr (map JNum (embedding row)),
              JStr (JSON_stringify rt (metadata row))])"

text \<open>
  \<open>extractMetadataColumns\<close>: every key of every row's metadata, in the order of first
  occurrence.
\<close>

fun pushKeys :: "string list \<Rightarrow> string list \<Rightarrow> string list" where
  "pushKeys metadataColumns [] = metadataColumns"
| "pushKeys metadataColumns (key # keys) =
     pushKeys (if key \<in> set metadataColumns then metadataColumns else metadataColumns @ [key])
       keys"

fun extractFrom :: "string list \<Rightarrow> 'n rowsInterface list \<Rightarrow> string list" where
  "extractFrom metadataColumns [] = metadataColumns"
| "extractFrom metadataColumns (row # others) =
     extractFrom (pushKeys metadataColumns (map fst (metadata row))) others"

definition extractMetadataColumns :: "'n rowsInterface list \<Rightarrow> string list" where
  "extractMetadataColumns rws = extractFrom [] rws"

fun statementsFor ::
  "AzionVectorStore \<Rightarrow> 'n runtime \<Rightarrow> string list \<Rightarrow> 'n rowsInterface list \<Rightarrow> exn + string list" where
  "statementsFor store rt metadataColumns [] = Inr []"
| "statementsFor store rt metadataColumns (row # others) =
     (case createInsertStatement store rt row metadataColumns of
        Inl e \<Rightarrow> Inl e
      | Inr statement \<Rightarrow>
          (case statementsFor store rt metadataColumns others of
             Inl e \<Rightarrow> Inl e
           | Inr insertStatements \<Rightarrow> Inr (statement # insertStatements)))"

definition createStatements ::
  "AzionVectorStore \<Rightarrow> 'n runtime \<Rightarrow> 'n rowsInterface list \<Rightarrow> exn + string list" where
  "createStatements store rt rws = statementsFor store rt (extractMetadataColumns rws) rws"

section \<open>Batch chunker\<close>

text \<open>
  \<open>getStringBytes\<close> is the length of the UTF-8 encoding made by \<open>TextEncoder\<close>: one byte
  for a character with a code below 128, two bytes for one with a code from 128 to 255.
\<close>

definition getStringBytes :: "string \<Rightarrow> nat" where
  "getStringBytes str = sum_list (map (\<lambda>c. if (of_char c :: nat) < 128 then 1 else 2) str)"

definition maxChunkLength :: nat where
  "maxChunkLength = 1000"

text \<open>
  \<open>maxMbSize\<close> is \<open>0.8 * 1024 * 1024\<close>, that is 838860.8. The sizes compared with it are
  whole numbers of bytes, so the rounding of \<open>0.8\<close> to a floating-point number does not
  change any comparison, and the bound is kept as a rational number.
\<close>

definition maxMbSize :: rat where
  "maxMbSize = 8 / 10 * 1024 * 1024"

text \<open>
  The state of the chunking loop: the chunks closed so far (\<open>insertChunk\<close>), the chunk being
  filled (\<open>array\<close>) and the statements not yet consumed (\<open>originalStatements\<close>).
\<close>

record chunk_state =
  insertChunk :: "string list list"
  array :: "string list"
  originalStatements :: "string list"

text \<open>
  One pass of \<open>for (const statement of originalStatements)\<close>. The iterator walks the array
  that \<open>originalStatements\<close> named when the pass began (the first argument); the body
  rebinds the variable to \<open>originalStatements.slice(1)\<close>, which the iterator does not see.
  \<open>insertChunk.push(array)\<close> in the second branch stores the array that is being filled;
  it happens when one statement is left, so the array is not written to afterwards and
  the stored chunk is its value at that moment.
\<close>

fun forStatements :: "string list \<Rightarrow> chunk_state \<Rightarrow> chunk_state" where
  "forStatements [] st = st"
| "forStatements (statement # rest) st =
     (let totalStringBytes = getStringBytes statement + getStringBytes (join '' '' (array st))
      in if of_nat totalStringBytes > maxMbSize \<or> length (array st) + 1 > maxChunkLength
         then forStatements rest
                \<lparr>insertChunk = insertChunk st @ [array st],
                 array = [statement],
                 originalStatements = drop 1 (originalStatements st)\<rparr>
         else forStatements rest
                \<lparr>insertChunk =
                   (if length (originalStatements st) = 1
                    then insertChunk st @ [array st @ [statement]]
                    else insertChunk st),
                 array = array st @ [statement],
                 originalStatements = drop 1 (originalStatements st)\<rparr>)"

text \<open>
  \<open>while (originalStatements.length > 0)\<close> around the pass. A pass consumes every
  statement it walks, so the loop ends.
\<close>

function whileStatements :: "chunk_state \<Rightarrow> string list list" where
  "whileStatements st =
     (if length (originalStatements st) > 0
      then whileStatements (forStatements (originalStatements st) st)
      else insertChunk st)"
  by pat_completeness auto
termination
proof (relation "measure (\<lambda>st. length (originalStatements st))")
  show "wf (measure (\<lambda>st. length (originalStatements st)))"
    by simp
next
  fix st :: chunk_state
  assume nonempty: "0 < length (originalStatements st)"
  have consumed:
    "originalStatements (forStatements xs s) = drop (length xs) (originalStatements s)" for xs s
    by (induction xs arbitrary: s) (simp_all add: Let_def)
  show "(forStatements (originalStatements st) st, st)
          \<in> measure (\<lambda>st. length (originalStatements st))"
    using nonempty by (simp add: consumed)
qed

definition createInsertChunks :: "string list \<Rightarrow> string list list" where
  "createInsertChunks statements =
     (let totalSize = getStringBytes (join '' '' statements)
      in if of_nat totalSize < maxMbSize \<and> length statements < maxChunkLength
         then [statements]
         else whileStatements
                \<lparr>insertChunk = [], array = [], originalStatements = statements\<rparr>)"

section \<open>Statement builder: queries\<close>

definition generateMetadata :: "AzionVectorStore \<Rightarrow> string list option \<Rightarrow> string \<Rightarrow> string" where
  "generateMetadata store metadataItems searchType =
     (case metadataItems of
        None \<Rightarrow> ''json_object('' @ sq @ ''searchtype'' @ sq @ '', '' @ sq @ searchType @ sq
                 @ '') as metadata''
      | Some items \<Rightarrow>
          if expandedMetadata store
          then ''json_object('' @ sq @ ''searchtype'' @ sq @ '','' @ sq @ searchType @ sq @ '',''
               @ join '', '' (map (\<lambda>item. sq @ item @ sq @ '', '' @ item) items)
               @ '') as metadata''
          else ''json_patch(json_object(''
               @ join '', '' (map (\<lambda>item. sq @ item @ sq @ '', metadata->>'' @ sq @ ''$.'' @ item @ sq)
                                items)
               @ ''), '' @ sq @ ''{'' @ dq @ ''searchtype'' @ dq @ '':'' @ dq @ searchType
               @ dq @ ''}'' @ sq @ '') as metadata'')"

text \<open>
  One clause of the filter. The source tests \<open>operator.toUpperCase()\<close> against \<open>IN\<close> and
  \<open>NOT IN\<close>; the operators of the type are upper case already.
\<close>

definition filterClause :: "AzionFilter \<Rightarrow> string" where
  "filterClause f =
     (if filterOperator f = OpIn \<or> filterOperator f = OpNotIn
      then filterColumn f @ '' '' @ operatorText (filterOperator f) @ '' ('' @ filterValue f @ '')''
      else filterColumn f @ '' '' @ operatorText (filterOperator f) @ '' '' @ sq @ filterValue f
           @ sq)"

definition generateFilters :: "AzionFilter list option \<Rightarrow> string" where
  "generateFilters filters =
     (case filters of
        None \<Rightarrow> []
      | Some fs \<Rightarrow> if length fs = 0 then [] else ''AND '' @ join '' AND '' (map filterClause fs))"

definition similarityQuery ::
  "AzionVectorStore \<Rightarrow> 'n runtime \<Rightarrow> 'n list \<Rightarrow> nat \<Rightarrow> AzionFilter list option
     \<Rightarrow> string list option \<Rightarrow> string" where
  "similarityQuery store rt vector k filterList metadataItems =
     nl @ ''      SELECT id, content, '' @ generateMetadata store metadataItems ''similarity''
     @ '', 1 - vector_distance_cos(embedding, vector('' @ sq @ ''[''
     @ toStr rt (JArr (map JNum vector))
     @ '']'' @ sq @ '')) as similarity'' @ nl @ ''      FROM '' @ tableName store
     @ ''  '' @ nl @ ''      WHERE rowid IN vector_top_k('' @ sq @ tableName store
     @ ''_idx'' @ sq @ '', vector('' @ sq @ ''['' @ toStr rt (JArr (map JNum vector))
     @ '']'' @ sq @ ''), '' @ countToString rt k @ '') '' @ generateFilters filterList"

text \<open>
  The characters the pattern \<open>/[^a-zA-Z0-9\s]/g\<close> leaves in place: the ASCII letters and
  digits and the white space (tab, line feed, vertical tab, form feed, carriage return,
  space, no-break space).
\<close>

definition keptByPattern :: "char \<Rightarrow> bool" where
  "keptByPattern c =
     (let n = (of_char c :: nat)
      in (97 \<le> n \<and> n \<le> 122) \<or> (65 \<le> n \<and> n \<le> 90) \<or> (48 \<le> n \<and> n \<le> 57)
         \<or> (9 \<le> n \<and> n \<le> 13) \<or> n = 32 \<or> n = 160)"

text \<open>
  The text put after \<open>MATCH\<close>:
  \<open>query.toString().replace(/[^a-zA-Z0-9\s]/g, '').split(' ').join(' OR ')\<close>.
\<close>

definition matchPattern :: "string \<Rightarrow> string" where
  "matchPattern query = join '' OR '' (split_space (filter keptByPattern query))"

definition fullTextQuery ::
  "AzionVectorStore \<Rightarrow> 'n runtime \<Rightarrow> string \<Rightarrow> nat \<Rightarrow> AzionFilter list option
     \<Rightarrow> string list option \<Rightarrow> string" where
  "fullTextQuery store rt query kfts filterList metadataItems =
     nl @ ''      SELECT id, content, '' @ generateMetadata store metadataItems ''fulltextsearch''
     @ '', rank as bm25_similarity'' @ nl @ ''      FROM '' @ tableName store
     @ ''_fts  '' @ nl @ ''      WHERE '' @ tableName store @ ''_fts MATCH '' @ sq
     @ matchPattern query @ sq @ '' '' @ generateFilters filterList
     @ nl @ ''      LIMIT '' @ countToString rt kfts"

section \<open>Search operations\<close>

text \<open>
  \<open>mapRows\<close> decodes every row of every result that has rows and columns. The decoding of
  one row (\<open>Number\<close>, \<open>String\<close> and \<open>JSON.parse\<close> on its first four cells) is taken as
  given in \<open>decodeRow\<close>; it may raise.
\<close>

fun decodeRows ::
  "('n jsvalue list \<Rightarrow> exn + 'n SearchEmbeddingsResponse) \<Rightarrow> 'n jsvalue list list
     \<Rightarrow> exn + 'n SearchEmbeddingsResponse list" where
  "decodeRows decodeRow [] = Inr []"
| "decodeRows decodeRow (row # others) =
     (case decodeRow row of
        Inl e \<Rightarrow> Inl e
      | Inr r \<Rightarrow>
          (case decodeRows decodeRow others of
             Inl e \<Rightarrow> Inl e
           | Inr rs \<Rightarrow> Inr (r # rs)))"

fun flatMapResults ::
  "('n jsvalue list \<Rightarrow> exn + 'n SearchEmbeddingsResponse) \<Rightarrow> 'n QueryResult list
     \<Rightarrow> exn + 'n SearchEmbeddingsResponse list" where
  "flatMapResults decodeRow [] = Inr []"
| "flatMapResults decodeRow (queryResult # others) =
     (case (case rows queryResult of
              None \<Rightarrow> Inr []
            | Some rs \<Rightarrow> if columns queryResult = None then Inr [] else decodeRows decodeRow rs) of
        Inl e \<Rightarrow> Inl e
      | Inr here \<Rightarrow>
          (case flatMapResults decodeRow others of
             Inl e \<Rightarrow> Inl e
           | Inr there \<Rightarrow> Inr (here @ there)))"

definition mapRows ::
  "('n jsvalue list \<Rightarrow> exn + 'n SearchEmbeddingsResponse) \<Rightarrow> 'n QueryResult list option
     \<Rightarrow> exn + 'n SearchEmbeddingsResponse list" where
  "mapRows decodeRow res =
     (case res of None \<Rightarrow> Inr [] | Some rs \<Rightarrow> flatMapResults decodeRow rs)"

definition mapSearches ::
  "'n runtime \<Rightarrow> 'n SearchEmbeddingsResponse list \<Rightarrow> ('n Document \<times> 'n) list" where
  "mapSearches rt searches =
     map (\<lambda>resp.
            (\<lparr>pageContent = resp_content resp,
              doc_metadata = resp_metadata resp,
              doc_id = Some (numToString rt (resp_id resp))\<rparr>,
             resp_similarity resp))
       searches"

text \<open>
  \<open>searchError\<close> makes the one result that stands for a failed search. Its page content is
  \<open>JSON.stringify(error)\<close>, an object with the fields \<open>message\<close> and \<open>operation\<close>; for a
  missing error that is \<open>undefined\<close>, and the document's page content is then empty.
\<close>

definition searchError :: "'n::zero runtime \<Rightarrow> AzionError option \<Rightarrow> ('n Document \<times> 'n) list" where
  "searchError rt err =
     [(\<lparr>pageContent =
           (case err of
              None \<Rightarrow> []
            | Some e \<Rightarrow>
                JSON_stringify rt
                  [(''message'', JStr (message e)), (''operation'', JStr (operation e))]),
        doc_metadata = [(''searchtype'', JStr ''error'')],
        doc_id = None\<rparr>,
       0)]"

text \<open>
  What both searches do with the answer to their query: with no data, call \<open>errorHandler\<close>
  and then return \<open>searchError\<close>; with data, map the rows to documents.
\<close>

definition similaritySearchVectorWithScore ::
  "AzionVectorStore \<Rightarrow> 'n::zero runtime \<Rightarrow> ('w, 'n) service
     \<Rightarrow> ('n jsvalue list \<Rightarrow> exn + 'n SearchEmbeddingsResponse)
     \<Rightarrow> 'n list \<Rightarrow> nat \<Rightarrow> AzionFilter list option \<Rightarrow> string list option
     \<Rightarrow> 'w \<Rightarrow> (exn + ('n Document \<times> 'n) list) \<times> 'w" where
  "similaritySearchVectorWithScore store rt svc decodeRow vector k filterList metadataItems w =
     (let (resp, w') =
            useQuery svc (dbName store)
              [similarityQuery store rt vector k filterList metadataItems] w
      in case data resp of
           None \<Rightarrow>
             (case errorHandler (error resp) ''Error performing similarity search'' of
                Inl e \<Rightarrow> (Inl e, w')
              | Inr _ \<Rightarrow> (Inr (searchError rt (error resp)), w'))
         | Some d \<Rightarrow>
             (case mapRows decodeRow (results d) of
                Inl e \<Rightarrow> (Inl e, w')
              | Inr searches \<Rightarrow> (Inr (mapSearches rt searches), w')))"

definition AzionFullTextSearch ::
  "AzionVectorStore \<Rightarrow> 'n::zero runtime \<Rightarrow> ('w, 'n) service
     \<Rightarrow> ('n jsvalue list \<Rightarrow> exn + 'n SearchEmbeddingsResponse)
     \<Rightarrow> string \<Rightarrow> nat \<Rightarrow> AzionFilter list option \<Rightarrow> string list option
     \<Rightarrow> 'w \<Rightarrow> (exn + ('n Document \<times> 'n) list) \<times> 'w" where
  "AzionFullTextSearch store rt svc decodeRow query kfts filterList metadataItems w =
     (let (resp, w') =
            useQuery svc (dbName store)
              [fullTextQuery store rt query kfts filterList metadataItems] w
      in case data resp of
           None \<Rightarrow>
             (case errorHandler (error resp) ''Error performing full-text search'' of
                Inl e \<Rightarrow> (Inl e, w')
              | Inr _ \<Rightarrow> (Inr (searchError rt (error resp)), w'))
         | Some d \<Rightarrow>
             (case mapRows decodeRow (results d) of
                Inl e \<Rightarrow> (Inl e, w')
              | Inr searches \<Rightarrow> (Inr (mapSearches rt searches), w')))"

definition AzionSimilaritySearch ::
  "AzionVectorStore \<Rightarrow> 'n::zero runtime \<Rightarrow> ('w, 'n) service
     \<Rightarrow> ('n jsvalue list \<Rightarrow> exn + 'n SearchEmbeddingsResponse)
     \<Rightarrow> string \<Rightarrow> nat \<Rightarrow> AzionFilter list option \<Rightarrow> string list option
     \<Rightarrow> 'w \<Rightarrow> (exn + ('n Document \<times> 'n) list) \<times> 'w" where
  "AzionSimilaritySearch store rt svc decodeRow query kvector filterList metadataItems w =
     (let (embedded, w') = embedQuery svc query w
      in case embedded of
           Inl e \<Rightarrow> (Inl e, w')
         | Inr vector \<Rightarrow>
             similaritySearchVectorWithScore store rt svc decodeRow vector kvector filterList
               metadataItems w')"

section \<open>Result merger\<close>

text \<open>
  The quotas \<open>kfts\<close> and \<open>kvector\<close> are numbers of results. \<open>searchtype\<close> is the tag a
  document's metadata carry.
\<close>

record 'n merge_state =
  uniqueResults :: "('n Document \<times> 'n) list"
  seenIds :: "string option set"
  similarityCount :: nat
  ftsCount :: nat

definition searchtype :: "'n Document \<Rightarrow> 'n jsvalue option" where
  "searchtype d = map_of (doc_metadata d) ''searchtype''"

definition considerResult :: "nat \<Rightarrow> nat \<Rightarrow> 'n Document \<times> 'n \<Rightarrow> 'n merge_state \<Rightarrow> 'n merge_state" where
  "considerResult kfts kvector result st =
     (if doc_id (fst result) \<notin> seenIds st
      then if searchtype (fst result) = Some (JStr ''similarity'') \<and> similarityCount st < kvector
           then st\<lparr>seenIds := insert (doc_id (fst result)) (seenIds st),
                   uniqueResults := uniqueResults st @ [result],
                   similarityCount := similarityCount st + 1\<rparr>
           else if searchtype (fst result) = Some (JStr ''fulltextsearch'') \<and> ftsCount st < kfts
           then st\<lparr>seenIds := insert (doc_id (fst result)) (seenIds st),
                   uniqueResults := uniqueResults st @ [result],
                   ftsCount := ftsCount st + 1\<rparr>
           else st
      else st)"

text \<open>The loop over the results, left by \<open>break\<close> when the counters add up to \<open>maxItems\<close>.\<close>

fun mergeLoop ::
  "nat \<Rightarrow> nat \<Rightarrow> ('n Document \<times> 'n) list \<Rightarrow> 'n merge_state \<Rightarrow> ('n Document \<times> 'n) list" where
  "mergeLoop kfts kvector [] st = uniqueResults st"
| "mergeLoop kfts kvector (result # rest) st =
     (let st' = considerResult kfts kvector result st
      in if similarityCount st' + ftsCount st' = kfts + kvector
         then uniqueResults st'
         else mergeLoop kfts kvector rest st')"

definition removeDuplicates ::
  "('n Document \<times> 'n) list \<Rightarrow> nat \<Rightarrow> nat \<Rightarrow> ('n Document \<times> 'n) list" where
  "removeDuplicates res kfts kvector =
     mergeLoop kfts kvector res
       \<lparr>uniqueResults = [], seenIds = {}, similarityCount = 0, ftsCount = 0\<rparr>"

definition AzionHybridSearch ::
  "AzionVectorStore \<Rightarrow> 'n::zero runtime \<Rightarrow> ('w, 'n) service
     \<Rightarrow> ('n jsvalue list \<Rightarrow> exn + 'n SearchEmbeddingsResponse)
     \<Rightarrow> string \<Rightarrow> nat \<Rightarrow> nat \<Rightarrow> AzionFilter list option \<Rightarrow> string list option
     \<Rightarrow> 'w \<Rightarrow> (exn + ('n Document \<times> 'n) list) \<times> 'w" where
  "AzionHybridSearch store rt svc decodeRow query kfts kvector filterList metadataItems w =
     (let (embedded, w1) = embedQuery svc query w
      in case embedded of
           Inl e \<Rightarrow> (Inl e, w1)
         | Inr vector \<Rightarrow>
             (let (fts, w2) =
                    AzionFullTextSearch store rt svc decodeRow query kfts filterList metadataItems w1
              in case fts of
                   Inl e \<Rightarrow> (Inl e, w2)
                 | Inr ftsResults \<Rightarrow>
                     (let (vec, w3) =
                            similaritySearchVectorWithScore store rt svc decodeRow vector kvector
                              filterList metadataItems w2
                      in case vec of
                           Inl e \<Rightarrow> (Inl e, w3)
                         | Inr vectorResults \<Rightarrow>
                             (Inr (removeDuplicates (ftsResults @ vectorResults) kfts kvector),
                              w3))))"

section \<open>The full-text pattern as the specification words it\<close>

text \<open>
  The specification describes the text after \<open>MATCH\<close> as the query with its
  non-alphanumeric characters stripped and the remaining words joined with \<open>OR\<close>.
  \<open>spec_matchPattern\<close> follows these words: the words of the query are its runs of
  characters other than white space, each word loses the characters that are not ASCII
  letters or digits, the words that remain are joined with \<open>OR\<close>. It is used only to
  compare with \<open>matchPattern\<close>.
\<close>

definition isAlphanumeric :: "char \<Rightarrow> bool" where
  "isAlphanumeric c =
     (let n = (of_char c :: nat)
      in (97 \<le> n \<and> n \<le> 122) \<or> (65 \<le> n \<and> n \<le> 90) \<or> (48 \<le> n \<and> n \<le> 57))"

definition isWhiteSpace :: "char \<Rightarrow> bool" where
  "isWhiteSpace c = (let n = (of_char c :: nat) in (9 \<le> n \<and> n \<le> 13) \<or> n = 32 \<or> n = 160)"

fun wordsFrom :: "string \<Rightarrow> string \<Rightarrow> string list" where
  "wordsFrom acc [] = (if acc = [] then [] else [acc])"
| "wordsFrom acc (c # cs) =
     (if isWhiteSpace c
      then (if acc = [] then wordsFrom [] cs else acc # wordsFrom [] cs)
      else wordsFrom (acc @ [c]) cs)"

definition spec_matchPattern :: "string \<Rightarrow> string" where
  "spec_matchPattern query =
     join '' OR ''
       (filter (\<lambda>w. w \<noteq> []) (map (filter isAlphanumeric) (wordsFrom [] query)))"

section \<open>Example data\<close>

text \<open>
  A runtime for examples, whose numbers are natural numbers. The examples use small
  numbers only, which are printed in decimal.
\<close>

definition natRuntime :: "nat runtime" where
  "natRuntime =
     \<lparr>numToString = showNat, numIsFinite = (\<lambda>n. True), largeCountToString = showNat\<rparr>"

text \<open>Two stores on the table \<open>docs\<close> of the database \<open>mydb\<close>, one for each metadata mode.\<close>

definition plainStore :: AzionVectorStore where
  "plainStore = \<lparr>tableName = ''docs'', dbName = ''mydb'', expandedMetadata = False\<rparr>"

definition expandedStore :: AzionVectorStore where
  "expandedStore = \<lparr>tableName = ''docs'', dbName = ''mydb'', expandedMetadata = True\<rparr>"

text \<open>Rows to write: one with a quote in a metadata value, one with a topic, one with no metadata.\<close>

definition quotedRow :: "nat rowsInterface" where
  "quotedRow =
     \<lparr>content = ''the reef'', embedding = [1, 2], metadata = [(''note'', JStr ''it's'')]\<rparr>"

definition topicRow :: "nat rowsInterface" where
  "topicRow =
     \<lparr>content = ''it's a reef'', embedding = [1, 2], metadata = [(''topic'', JStr ''nature'')]\<rparr>"

definition bareRow :: "nat rowsInterface" where
  "bareRow = \<lparr>content = ''opera'', embedding = [3, 4], metadata = []\<rparr>"

text \<open>
  Results as the two searches return them: a document with an identifier, a page content
  and the tag of its search, and a score.
\<close>

definition ftsDoc :: "string \<Rightarrow> string \<Rightarrow> 'n \<Rightarrow> 'n Document \<times> 'n" where
  "ftsDoc i c score =
     (\<lparr>pageContent = c, doc_metadata = [(''searchtype'', JStr ''fulltextsearch'')],
       doc_id = Some i\<rparr>, score)"

definition similarityDoc :: "string \<Rightarrow> string \<Rightarrow> 'n \<Rightarrow> 'n Document \<times> 'n" where
  "similarityDoc i c score =
     (\<lparr>pageContent = c, doc_metadata = [(''searchtype'', JStr ''similarity'')],
       doc_id = Some i\<rparr>, score)"

text \<open>
  A database service whose every query fails with an error, and a row decoder that is
  never reached.
\<close>

definition failingService :: "(unit, nat) service" where
  "failingService =
     \<lparr>getDatabases = (\<lambda>w. (\<lparr>data = None, error = None\<rparr>, w)),
      createDatabase = (\<lambda>name w. (None, w)),
      getTables = (\<lambda>db w. (\<lparr>data = None, error = None\<rparr>, w)),
      useExecute = (\<lambda>db batch w. (None, w)),
      useQuery = (\<lambda>db queries w.
         (\<lparr>data = None,
           error = Some \<lparr>message = ''no such table: docs'', operation = ''query''\<rparr>\<rparr>, w)),
      embedQuery = (\<lambda>text w. (Inr [1, 2], w))\<rparr>"

definition noDecode :: "nat jsvalue list \<Rightarrow> exn + nat SearchEmbeddingsResponse" where
  "noDecode row = Inl SyntaxError"

text \<open>
  A database service in memory. Its state is the names of the databases and of the
  tables. Executing a batch creates the table \<open>table\<close>, and its full-text table when the
  batch has more than the two statements of vector mode; a listing reports the tables
  in the second cell of its rows.
\<close>

definition memoryService :: "string \<Rightarrow> (string list \<times> string list, nat) service" where
  "memoryService table =
     \<lparr>getDatabases = (\<lambda>w. (\<lparr>data = Some \<lparr>databases = Some (fst w)\<rparr>, error = None\<rparr>, w)),
      createDatabase = (\<lambda>name w. (None, (fst w @ [name], snd w))),
      getTables = (\<lambda>db w.
         (\<lparr>data = Some \<lparr>results =
              Some [\<lparr>columns = Some [''schema'', ''name''],
                     rows = Some (map (\<lambda>t. [JStr ''main'', JStr t]) (snd w))\<rparr>]\<rparr>,
           error = None\<rparr>, w)),
      useExecute = (\<lambda>db batch w.
         (None, (fst w, snd w @ (if length batch > 2 then [table, table @ ''_fts''] else [table])))),
      useQuery = (\<lambda>db queries w. (\<lparr>data = Some \<lparr>results = Some []\<rparr>, error = None\<rparr>, w)),
      embedQuery = (\<lambda>text w. (Inr [1, 2, 3], w))\<rparr>"

section \<open>The invariant of the merge loop\<close>

text \<open>
  While \<open>removeDuplicates\<close> runs, the accepted results have pairwise different
  identifiers, all of them in \<open>seenIds\<close>; the two counters count the accepted results of
  their tag, no other result is accepted, and neither counter is above its quota.
\<close>

definition merge_inv :: "nat \<Rightarrow> nat \<Rightarrow> 'n merge_state \<Rightarrow> bool" where
  "merge_inv kfts kvector st =
     (distinct (map (doc_id \<circ> fst) (uniqueResults st))
      \<and> set (map (doc_id \<circ> fst) (uniqueResults st)) \<subseteq> seenIds st
      \<and> length (filter (\<lambda>r. searchtype (fst r) = Some (JStr ''similarity'')) (uniqueResults st))
          = similarityCount st
      \<and> length (filter (\<lambda>r. searchtype (fst r) = Some (JStr ''fulltextsearch''))
                  (uniqueResults st))
          = ftsCount st
      \<and> length (uniqueResults st) = similarityCount st + ftsCount st
      \<and> similarityCount st \<le> kvector
      \<and> ftsCount st \<le> kfts)"

section \<open>Batch chunker: what the loop does with the last statement\<close>

lemma getStringBytes_Nil: "getStringBytes [] = 0"
  by (simp add: getStringBytes_def)

lemma getStringBytes_append:
  "getStringBytes (xs @ ys) = getStringBytes xs + getStringBytes ys"
  by (simp add: getStringBytes_def)

lemma getStringBytes_space: "getStringBytes (CHR '' '' # xs) = Suc (getStringBytes xs)"
  by (simp add: getStringBytes_def)

lemma getStringBytes_replicate_ascii:
  "(of_char c :: nat) < 128 \<Longrightarrow> getStringBytes (replicate n c) = n"
  by (induction n) (simp_all add: getStringBytes_def)

lemma getStringBytes_join_replicate:
  "getStringBytes (join '' '' (replicate k s)) = k * getStringBytes s + (k - 1)"
proof (induction k)
  case 0
  then show ?case by (simp add: getStringBytes_Nil)
next
  case (Suc k)
  show ?case
  proof (cases k)
    case 0
    then show ?thesis by simp
  next
    case (Suc j)
    then have "join '' '' (replicate (Suc k) s) = s @ '' '' @ join '' '' (replicate k s)"
      by simp
    then show ?thesis
      using Suc.IH Suc by (simp add: getStringBytes_append getStringBytes_space)
  qed
qed

text \<open>
  Statements of at most 800 bytes each, walked while the chunk being filled stays within
  1000 statements and more than one statement is left: each is appended to the chunk.
\<close>

lemma forStatements_fill:
  assumes "getStringBytes s \<le> 800"
    and "array st = replicate k s"
    and "k + n \<le> 1000"
    and "n < length (originalStatements st)"
  shows "forStatements (replicate n s @ rest) st
         = forStatements rest
             \<lparr>insertChunk = insertChunk st, array = replicate (k + n) s,
              originalStatements = drop n (originalStatements st)\<rparr>"
  using assms(2-4)
proof (induction n arbitrary: st k)
  case 0
  then show ?case by (cases st) simp
next
  case (Suc n)
  have small: "getStringBytes s + getStringBytes (join '' '' (replicate k s)) \<le> 802000"
  proof -
    have "k * getStringBytes s \<le> 1000 * 800"
      using assms(1) Suc.prems(2) by (intro mult_mono) simp_all
    then show ?thesis
      using assms(1) Suc.prems(2) by (simp add: getStringBytes_join_replicate)
  qed
  have notbig:
    "\<not> of_nat (getStringBytes s + getStringBytes (join '' '' (replicate k s))) > maxMbSize"
  proof -
    have "(of_nat (getStringBytes s + getStringBytes (join '' '' (replicate k s))) :: rat)
            \<le> of_nat 802000"
      using small of_nat_le_iff by blast
    then show ?thesis by (simp add: maxMbSize_def)
  qed
  let ?st' = "\<lparr>insertChunk = insertChunk st, array = replicate (Suc k) s,
               originalStatements = drop 1 (originalStatements st)\<rparr>"
  have step:
    "forStatements (replicate (Suc n) s @ rest) st = forStatements (replicate n s @ rest) ?st'"
    using Suc.prems notbig
    by (simp add: Let_def maxChunkLength_def replicate_append_same)
  have "forStatements (replicate n s @ rest) ?st'
        = forStatements rest
            \<lparr>insertChunk = insertChunk ?st', array = replicate (Suc k + n) s,
             originalStatements = drop n (originalStatements ?st')\<rparr>"
    using Suc.prems by (intro Suc.IH) simp_all
  then show ?case using step by simp
qed

text \<open>
  Claim C1 says that the chunks of \<open>createInsertChunks\<close>, concatenated in their order, are
  the input, and that the last statement is in the last chunk. The code does not do
  this. A statement that closes the current chunk becomes the first statement of a new
  chunk, and that chunk is pushed only by a later statement; when the closing statement
  is the last one of the input, nothing pushes it. So, for every statement of at most
  800 bytes, a batch of 1001 copies of it comes back as one chunk of 1000 statements:
  the last statement is lost.
\<close>

theorem createInsertChunks_drops_last:
  assumes "getStringBytes s \<le> 800"
  shows "createInsertChunks (replicate 1001 s) = [replicate 1000 s]"
proof -
  let ?init = "\<lparr>insertChunk = [], array = [], originalStatements = replicate 1001 s\<rparr>"
  have "replicate (1000 + 1) s = replicate 1000 s @ replicate 1 s"
    by (rule replicate_add)
  then have split: "replicate 1001 s = replicate 1000 s @ [s]"
    by simp
  have "forStatements (replicate 1000 s @ [s]) ?init
        = forStatements [s]
            \<lparr>insertChunk = insertChunk ?init, array = replicate (0 + 1000) s,
             originalStatements = drop 1000 (originalStatements ?init)\<rparr>"
    using assms by (intro forStatements_fill) simp_all
  then have pass: "forStatements (replicate 1001 s) ?init
        = \<lparr>insertChunk = [replicate 1000 s], array = [s], originalStatements = []\<rparr>"
    unfolding split [symmetric] by (simp add: Let_def maxChunkLength_def)
  have "whileStatements ?init = whileStatements (forStatements (replicate 1001 s) ?init)"
    by (subst whileStatements.simps) simp
  also have "\<dots> = [replicate 1000 s]"
    unfolding pass by (subst whileStatements.simps) simp
  finally show ?thesis
    by (simp add: createInsertChunks_def maxChunkLength_def)
qed

theorem createInsertChunks_drops_last_witness:
  "createInsertChunks (replicate 1001 ''a'') = [replicate 1000 ''a'']
   \<and> length (concat (createInsertChunks (replicate 1001 ''a''))) = 1000
   \<and> length (replicate 1001 ''a'') = 1001"
  using createInsertChunks_drops_last [of "''a''"]
  by (simp add: getStringBytes_def)

text \<open>
  Claim C4 says that a chunk of more than one statement, joined with the separator, has
  at most \<open>maxMbSize\<close> bytes, and that a chunk has at most 1000 statements. The loop adds
  the bytes of the next statement to the bytes of the joined chunk and leaves out the
  separator that joins the two, so a chunk can be one byte above the bound. Two
  statements of 419430 bytes are joined to 838861 bytes, which is more than
  \<open>maxMbSize\<close>; the test before the loop finds the batch too large for one chunk, and the
  loop returns it as one chunk.
\<close>

theorem createInsertChunks_separator_not_counted:
  "createInsertChunks [replicate 419430 CHR ''x'', replicate 419430 CHR ''x'']
     = [[replicate 419430 CHR ''x'', replicate 419430 CHR ''x'']]
   \<and> getStringBytes (join '' '' [replicate 419430 CHR ''x'', replicate 419430 CHR ''x''])
       = 838861
   \<and> of_nat (getStringBytes
               (join '' '' [replicate 419430 CHR ''x'', replicate 419430 CHR ''x'']))
       > maxMbSize"
  by (simp add: createInsertChunks_def getStringBytes_append getStringBytes_replicate_ascii
      getStringBytes_Nil getStringBytes_space maxMbSize_def maxChunkLength_def Let_def)

section \<open>Statement builder: the text of an insert statement\<close>

lemma elementsToStr_numbers: "elementsToStr rt (map JNum e) = map (numToString rt) e"
  by (induction e) simp_all

lemma createInsertStatement_plain:
  assumes "\<not> expandedMetadata store"
  shows "createInsertStatement store rt row cols
     = Inr (''INSERT INTO '' @ tableName store @ '' (content, embedding, metadata) '' @ nl
            @ ''    VALUES ('' @ sq @ escapeQuotes (content row) @ sq
            @ '', vector('' @ sq @ ''['' @ join '','' (map (numToString rt) (embedding row))
            @ '']'' @ sq @ '')''
            @ '', '' @ sq @ JSON_stringify rt (metadata row) @ sq @ '')'')"
  using assms
  by (simp add: createInsertStatement_def createInsertString_def renderPlain_def
      elementsToStr_numbers)

lemma createInsertStatement_expanded:
  assumes "expandedMetadata store"
  shows "createInsertStatement store rt row cols
     = (case mapValues (renderExpanded rt) cols (map (lookupOrNull (metadata row)) cols) of
          Inl e \<Rightarrow> Inl e
        | Inr rendered \<Rightarrow>
            Inr (''INSERT INTO '' @ tableName store @ '' (''
                 @ join '', '' (''content'' # ''embedding'' # cols)
                 @ '') '' @ nl @ ''      VALUES (''
                 @ join '', '' ((sq @ escapeQuotes (content row) @ sq)
                     # (''vector('' @ sq @ ''[''
                        @ join '','' (map (numToString rt) (embedding row)) @ '']'' @ sq @ '')'')
                     # rendered) @ '')''))"
  using assms
  by (simp add: createInsertStatement_def createInsertString_def renderExpanded_def
      elementsToStr_numbers split: sum.splits)

lemma renderExpanded_error: "renderExpanded rt name v = Inl e \<Longrightarrow> e = TypeError"
  by (cases v) (auto simp: renderExpanded_def split: if_splits)

lemma mapValues_missing:
  assumes "col \<in> set cols" and "col \<noteq> ''embedding''" and "map_of md col = None"
  shows "mapValues (renderExpanded rt) cols (map (lookupOrNull md) cols) = Inl TypeError"
  using assms(1)
proof (induction cols)
  case Nil
  then show ?case by simp
next
  case (Cons c cs)
  show ?case
  proof (cases "renderExpanded rt (Some c) (lookupOrNull md c)")
    case (Inl e)
    then show ?thesis using renderExpanded_error [OF Inl] by simp
  next
    case (Inr s)
    have "c \<noteq> col"
    proof
      assume "c = col"
      then have "renderExpanded rt (Some c) (lookupOrNull md c) = Inl TypeError"
        using assms(2,3) by (simp add: renderExpanded_def lookupOrNull_def)
      then show False using Inr by simp
    qed
    then have "col \<in> set cs" using Cons.prems by simp
    then show ?thesis using Cons.IH Inr by simp
  qed
qed

text \<open>
  Claim C7 says that in expanded-metadata mode the insert statement of every row of a
  batch lists each declared column and renders the row's value for it as escaped text,
  a missing key being rendered as null. The code looks the key up and puts \<open>null\<close> for a
  missing one, as the claim says, and then calls \<open>escapeQuotes\<close> on that \<open>null\<close>, which
  has no method \<open>replace\<close>. So no statement is made: whenever a declared column other
  than \<open>embedding\<close> is missing from the row's metadata, \<open>createInsertStatement\<close> raises a
  \<open>TypeError\<close>.
\<close>

theorem createInsertStatement_missing_key_raises:
  assumes "expandedMetadata store"
    and "col \<in> set cols"
    and "col \<noteq> ''embedding''"
    and "map_of (metadata row) col = None"
  shows "createInsertStatement store rt row cols = Inl TypeError"
  unfolding createInsertStatement_expanded [OF assms(1)]
  using mapValues_missing [OF assms(2,3,4)] by simp

theorem createInsertStatement_missing_key_raises_witness:
  "extractMetadataColumns [topicRow, bareRow] = [''topic'']
   \<and> createInsertStatement expandedStore natRuntime bareRow [''topic''] = Inl TypeError
   \<and> createStatements expandedStore natRuntime [topicRow, bareRow] = Inl TypeError"
  using createInsertStatement_missing_key_raises
          [of expandedStore "''topic''" "[''topic'']" bareRow natRuntime]
  by (simp add: createStatements_def extractMetadataColumns_def topicRow_def bareRow_def
      expandedStore_def createInsertStatement_def createInsertString_def renderExpanded_def
      lookupOrNull_def)

text \<open>
  Claim C8: the content put into the insert statement is the row's content with every
  single quote and every double quote replaced by a space. \<open>escapeQuotes\<close> is that
  replacement; every statement that is generated starts with the table, the column
  list beginning with \<open>content\<close> and \<open>embedding\<close>, and \<open>VALUES\<close> followed by the quoted
  sanitized content and the vector; in plain mode a statement is always generated; and
  in either mode whether a statement is generated does not depend on the content.
\<close>

theorem content_quotes_stripped:
  "escapeQuotes c = map (\<lambda>ch. if ch = CHR 0x27 \<or> ch = CHR 0x22 then CHR '' '' else ch) c
   \<and> (createInsertStatement store rt row cols = Inr stmt \<longrightarrow>
        (\<exists>names indent rest.
           stmt = ''INSERT INTO '' @ tableName store @ '' (''
                  @ join '', '' (''content'' # ''embedding'' # names) @ '') '' @ nl @ indent
                  @ ''VALUES ('' @ sq @ escapeQuotes (content row) @ sq @ '', vector('' @ rest))
   \<and> (\<not> expandedMetadata store \<longrightarrow> (\<exists>s. createInsertStatement store rt row cols = Inr s))
   \<and> isl (createInsertStatement store rt (row\<lparr>content := c\<rparr>) cols)
       = isl (createInsertStatement store rt row cols)"
proof (intro conjI impI)
  show "escapeQuotes c = map (\<lambda>ch. if ch = CHR 0x27 \<or> ch = CHR 0x22 then CHR '' '' else ch) c"
    by (simp add: escapeQuotes_def)
next
  assume gen: "createInsertStatement store rt row cols = Inr stmt"
  show "\<exists>names indent rest.
           stmt = ''INSERT INTO '' @ tableName store @ '' (''
                  @ join '', '' (''content'' # ''embedding'' # names) @ '') '' @ nl @ indent
                  @ ''VALUES ('' @ sq @ escapeQuotes (content row) @ sq @ '', vector('' @ rest"
  proof (cases "expandedMetadata store")
    case True
    from gen obtain rendered where
      "stmt = ''INSERT INTO '' @ tableName store @ '' (''
                 @ join '', '' (''content'' # ''embedding'' # cols)
                 @ '') '' @ nl @ ''      VALUES (''
                 @ join '', '' ((sq @ escapeQuotes (content row) @ sq)
                     # (''vector('' @ sq @ ''[''
                        @ join '','' (map (numToString rt) (embedding row)) @ '']'' @ sq @ '')'')
                     # rendered) @ '')''"
      unfolding createInsertStatement_expanded [OF True] by (auto split: sum.splits)
    then have "stmt = ''INSERT INTO '' @ tableName store @ '' (''
                 @ join '', '' (''content'' # ''embedding'' # cols)
                 @ '') '' @ nl @ ''      ''
                 @ ''VALUES ('' @ sq @ escapeQuotes (content row) @ sq @ '', vector(''
                 @ (sq @ ''['' @ join '','' (map (numToString rt) (embedding row)) @ '']''
                    @ sq @ '')''
                    @ (if rendered = [] then '')'' else '', '' @ join '', '' rendered @ '')''))"
      by (cases rendered) simp_all
    then show ?thesis by blast
  next
    case False
    have "stmt = ''INSERT INTO '' @ tableName store @ '' (''
                 @ join '', '' (''content'' # ''embedding'' # [''metadata''])
                 @ '') '' @ nl @ ''    ''
                 @ ''VALUES ('' @ sq @ escapeQuotes (content row) @ sq @ '', vector(''
                 @ (sq @ ''['' @ join '','' (map (numToString rt) (embedding row)) @ '']''
                    @ sq @ '')''
                    @ '', '' @ sq @ JSON_stringify rt (metadata row) @ sq @ '')'')"
      using gen unfolding createInsertStatement_plain [OF False] by simp
    then show ?thesis by blast
  qed
next
  assume "\<not> expandedMetadata store"
  then show "\<exists>s. createInsertStatement store rt row cols = Inr s"
    by (simp add: createInsertStatement_plain)
next
  show "isl (createInsertStatement store rt (row\<lparr>content := c\<rparr>) cols)
       = isl (createInsertStatement store rt row cols)"
  proof (cases "expandedMetadata store")
    case True
    show ?thesis
      unfolding createInsertStatement_expanded [OF True] by (simp split: sum.splits)
  next
    case False
    show ?thesis
      unfolding createInsertStatement_plain [OF False] by simp
  qed
qed

theorem content_quotes_stripped_witness:
  "escapeQuotes ''it's'' = ''it s''
   \<and> createInsertStatement expandedStore natRuntime topicRow [''topic'']
       = Inr (''INSERT INTO docs (content, embedding, topic) '' @ nl
              @ ''      VALUES ('' @ sq @ ''it s a reef'' @ sq @ '', vector('' @ sq @ ''[1,2]''
              @ sq @ ''), '' @ sq @ ''nature'' @ sq @ '')'')
   \<and> isl (createInsertStatement expandedStore natRuntime (topicRow\<lparr>content := ''it's''\<rparr>)
            [''topic''])
       = isl (createInsertStatement expandedStore natRuntime topicRow [''topic''])"
  using content_quotes_stripped
          [of "''it's''" expandedStore natRuntime topicRow "[''topic'']"
              "''INSERT INTO docs (content, embedding, topic) '' @ nl
               @ ''      VALUES ('' @ sq @ ''it s a reef'' @ sq @ '', vector('' @ sq @ ''[1,2]''
               @ sq @ ''), '' @ sq @ ''nature'' @ sq @ '')''"]
  by (simp add: expandedStore_def topicRow_def natRuntime_def createInsertStatement_def
      createInsertString_def renderExpanded_def lookupOrNull_def escapeQuotes_def
      showNat.simps digit_def sq_def nl_def)

text \<open>
  Claim C10: in plain-metadata mode the JSON text of the row's metadata is put between
  single quotes as it is, without \<open>escapeQuotes\<close>. The statement is the text below for
  every row; and \<open>JSON.stringify\<close> copies a single quote of a metadata value, so for a
  metadata record with one string value that holds a single quote the quote stands
  unescaped inside the quoted literal.
\<close>

theorem plain_metadata_verbatim:
  assumes "\<not> expandedMetadata store"
  shows "createInsertStatement store rt row cols
     = Inr (''INSERT INTO '' @ tableName store @ '' (content, embedding, metadata) '' @ nl
            @ ''    VALUES ('' @ sq @ escapeQuotes (content row) @ sq
            @ '', vector('' @ sq @ ''['' @ join '','' (map (numToString rt) (embedding row))
            @ '']'' @ sq @ '')''
            @ '', '' @ sq @ JSON_stringify rt (metadata row) @ sq @ '')'')
     \<and> JSON_stringify rt [(k, JStr (a @ sq @ b))]
       = ''{'' @ quoteJSONString k @ '':'' @ dq @ concat (map quoteJSONChar a) @ sq
         @ concat (map quoteJSONChar b) @ dq @ ''}''"
  using assms
  by (simp add: createInsertStatement_plain JSON_stringify_def quoteJSONString_def
      quoteJSONChar_def sq_def)

theorem plain_metadata_verbatim_witness:
  "createInsertStatement plainStore natRuntime quotedRow []
     = Inr (''INSERT INTO docs (content, embedding, metadata) '' @ nl
            @ ''    VALUES ('' @ sq @ ''the reef'' @ sq @ '', vector('' @ sq @ ''[1,2]'' @ sq
            @ ''), '' @ sq @ ''{'' @ dq @ ''note'' @ dq @ '':'' @ dq @ ''it'' @ sq @ ''s'' @ dq
            @ ''}'' @ sq @ '')'')"
  using plain_metadata_verbatim
          [of plainStore natRuntime quotedRow "[]" "''note''" "''it''" "''s''"]
  by (simp add: plainStore_def quotedRow_def natRuntime_def JSON_stringify_def
      quoteJSONString_def quoteJSONChar_def escapeQuotes_def showNat.simps digit_def
      sq_def dq_def bs_def nl_def)

section \<open>Statement builder: the full-text query\<close>

text \<open>
  Claim C9 says that the pattern after \<open>MATCH\<close> is the query with its non-alphanumeric
  characters stripped and the remaining words joined with \<open>OR\<close>, in a query limited to
  \<open>kfts\<close> rows with the filter clauses conjoined. The code makes the list of words with
  \<open>split(' ')\<close> and does not drop the empty pieces, so where two spaces are adjacent, or a
  word has no letter or digit, the pattern has an empty operand between two \<open>OR\<close>s
  instead of the words joined: for the query \<open>a  b\<close> it is \<open>a OR  OR b\<close>, where the words
  joined are \<open>a OR b\<close>. The limit and the filter clause of the query are as the claim
  says.
\<close>

theorem matchPattern_empty_operand:
  "matchPattern ''a  b'' = ''a OR  OR b''
   \<and> spec_matchPattern ''a  b'' = ''a OR b''
   \<and> matchPattern ''Sydney Opera House - history''
       = ''Sydney OR Opera OR House OR  OR history''
   \<and> spec_matchPattern ''Sydney Opera House - history''
       = ''Sydney OR Opera OR House OR history''
   \<and> fullTextQuery plainStore natRuntime ''a  b'' 3
        (Some [\<lparr>filterOperator = OpEq, filterColumn = ''language'', filterValue = ''en''\<rparr>]) None
       = nl @ ''      SELECT id, content, json_object('' @ sq @ ''searchtype'' @ sq @ '', '' @ sq
         @ ''fulltextsearch'' @ sq @ '') as metadata, rank as bm25_similarity'' @ nl
         @ ''      FROM docs_fts  '' @ nl @ ''      WHERE docs_fts MATCH '' @ sq
         @ ''a OR  OR b'' @ sq @ '' AND language = '' @ sq @ ''en'' @ sq @ nl
         @ ''      LIMIT 3''"
proof -
  have patterns:
    "matchPattern ''a  b'' = ''a OR  OR b''"
    "spec_matchPattern ''a  b'' = ''a OR b''"
    "matchPattern ''Sydney Opera House - history''
       = ''Sydney OR Opera OR House OR  OR history''"
    "spec_matchPattern ''Sydney Opera House - history''
       = ''Sydney OR Opera OR House OR history''"
    by code_simp+
  show ?thesis
    by (simp add: patterns fullTextQuery_def plainStore_def natRuntime_def countToString_def
        generateMetadata_def generateFilters_def filterClause_def showNat.simps digit_def
        sq_def nl_def)
qed

section \<open>Search operations: a failed query\<close>

text \<open>
  Claim C2 says that a search whose query fails does not raise and returns the one
  result made by \<open>searchError\<close>. The code calls \<open>errorHandler\<close> before \<open>searchError\<close>, and
  \<open>errorHandler\<close> raises whenever it is given an error. So when the query collaborator
  answers with no data and an error, both the similarity search and the full-text
  search raise an \<open>Error\<close> with the message of that error, and the result of
  \<open>searchError\<close> is not returned.
\<close>

theorem search_raises_on_database_error:
  assumes "data resp = None" and "error resp = Some err"
  shows "(useQuery svc (dbName store) [similarityQuery store rt vector k fl mi] w = (resp, w')
            \<longrightarrow> similaritySearchVectorWithScore store rt svc decodeRow vector k fl mi w
                  = (Inl (Error (message err)), w'))
         \<and> (useQuery svc (dbName store) [fullTextQuery store rt query kfts fl mi] w = (resp, w')
            \<longrightarrow> AzionFullTextSearch store rt svc decodeRow query kfts fl mi w
                  = (Inl (Error (message err)), w'))"
  using assms
  by (simp add: similaritySearchVectorWithScore_def AzionFullTextSearch_def)

theorem search_raises_on_database_error_witness:
  "similaritySearchVectorWithScore plainStore natRuntime failingService noDecode [1, 2] 3
       None None ()
     = (Inl (Error ''no such table: docs''), ())
   \<and> AzionFullTextSearch plainStore natRuntime failingService noDecode ''coral reefs'' 3
       None None ()
     = (Inl (Error ''no such table: docs''), ())"
  using search_raises_on_database_error
          [where resp = "\<lparr>data = None,
                           error = Some \<lparr>message = ''no such table: docs'',
                                         operation = ''query''\<rparr>\<rparr>"
             and err = "\<lparr>message = ''no such table: docs'', operation = ''query''\<rparr>"
             and svc = failingService and store = plainStore and rt = natRuntime
             and vector = "[1, 2]" and k = 3 and fl = None and mi = None
             and w = "()" and w' = "()"
             and query = "''coral reefs''" and kfts = 3 and decodeRow = noDecode]
  by (simp add: failingService_def)

text \<open>
  The result of \<open>searchError\<close> is returned only when the collaborator answers with
  neither data nor an error; the hybrid search raises as its first search does.
\<close>

lemma search_without_data_and_error:
  assumes "data resp = None" and "error resp = None"
    and "useQuery svc (dbName store) [similarityQuery store rt vector k fl mi] w = (resp, w')"
  shows "similaritySearchVectorWithScore store rt svc decodeRow vector k fl mi w
           = (Inr [(\<lparr>pageContent = [], doc_metadata = [(''searchtype'', JStr ''error'')],
                     doc_id = None\<rparr>, 0)], w')"
  using assms
  by (simp add: similaritySearchVectorWithScore_def searchError_def)

lemma hybrid_search_raises_example:
  "AzionHybridSearch plainStore natRuntime failingService noDecode ''coral reefs'' 2 2
       None None ()
     = (Inl (Error ''no such table: docs''), ())"
  by (simp add: AzionHybridSearch_def AzionFullTextSearch_def failingService_def)

section \<open>Schema provisioner: setup with the tables present\<close>

lemma executedBatches_append:
  "executedBatches (xs @ ys) = executedBatches xs @ executedBatches ys"
  by (induction xs rule: executedBatches.induct) simp_all

lemma executedBatches_handleDatabase:
  "executedBatches (snd (snd (handleDatabase store svc s))) = executedBatches (snd s)"
  by (simp add: handleDatabase_def Let_def executedBatches_append
      split: prod.splits sum.splits)

lemma executedBatches_handleTables:
  assumes "areTablesSetup store
             (listedTables (data (fst (getTables svc (dbName store) (fst s))))) m"
  shows "executedBatches (snd (snd (handleTables store svc m cols s))) = executedBatches (snd s)"
proof -
  obtain resp w1 where listing: "getTables svc (dbName store) (fst s) = (resp, w1)"
    by (cases "getTables svc (dbName store) (fst s)")
  have "areTablesSetup store (listedTables (data resp)) m"
    using assms listing by simp
  then show ?thesis
    by (simp add: handleTables_def listing Let_def executedBatches_append split: sum.splits)
qed

text \<open>
  Claim C6: setup is idempotent for the creation of tables. If the table listing that
  \<open>setupDatabase\<close> asks for, in the state the service has after the database step,
  reports the table (and in hybrid mode the table \<open>tableName_fts\<close> too), then the call
  executes no statement batch: the batches in the log after the call are those before
  it. A second call after a first one that created the tables is such a call.
\<close>

theorem setupDatabase_idempotent:
  assumes "areTablesSetup store
             (listedTables
                (data (fst (getTables svc (dbName store)
                              (fst (snd (handleDatabase store svc s)))))))
             m"
  shows "executedBatches (snd (snd (setupDatabase store svc cols m s))) = executedBatches (snd s)"
proof (cases "fst (handleDatabase store svc s)")
  case (Inl e)
  then have "setupDatabase store svc cols m s = (Inl e, snd (handleDatabase store svc s))"
    by (cases "handleDatabase store svc s") (simp add: setupDatabase_def)
  then show ?thesis by (simp add: executedBatches_handleDatabase)
next
  case (Inr u)
  then have "setupDatabase store svc cols m s
      = handleTables store svc m cols (snd (handleDatabase store svc s))"
    by (cases "handleDatabase store svc s") (simp add: setupDatabase_def)
  then show ?thesis
    using executedBatches_handleTables [OF assms, of cols]
    by (simp add: executedBatches_handleDatabase)
qed

text \<open>
  On the service in memory, the first setup of an empty service succeeds, creates the
  database and the two tables and executes one batch.
\<close>

lemma first_setup_example:
  "fst (setupDatabase plainStore (memoryService ''docs'') [''topic''] Hybrid (([], []), []))
     = Inr ()
   \<and> fst (snd (setupDatabase plainStore (memoryService ''docs'') [''topic''] Hybrid
                (([], []), [])))
     = ([''mydb''], [''docs'', ''docs_fts''])
   \<and> length (executedBatches
               (snd (snd (setupDatabase plainStore (memoryService ''docs'') [''topic''] Hybrid
                            (([], []), [])))))
     = 1"
  by (simp add: setupDatabase_def handleDatabase_def handleTables_def setupTables_def
      memoryService_def plainStore_def databaseListed_def listedTables_def areTablesSetup_def
      createTriggersStatements_def)

theorem setupDatabase_idempotent_witness:
  "executedBatches
     (snd (snd (setupDatabase plainStore (memoryService ''docs'') [''topic''] Hybrid
                  (fst (snd (setupDatabase plainStore (memoryService ''docs'') [''topic''] Hybrid
                               (([], []), []))),
                   []))))
   = []"
proof -
  have after: "fst (snd (setupDatabase plainStore (memoryService ''docs'') [''topic''] Hybrid
                          (([], []), [])))
               = ([''mydb''], [''docs'', ''docs_fts''])"
    using first_setup_example by simp
  show ?thesis
    unfolding after
    using setupDatabase_idempotent
            [of plainStore "memoryService ''docs''" "(([''mydb''], [''docs'', ''docs_fts'']), [])"
                Hybrid "[''topic'']"]
    by (simp add: handleDatabase_def memoryService_def plainStore_def databaseListed_def
        listedTables_def areTablesSetup_def)
qed

section \<open>Result merger: quotas and duplicates\<close>

lemma merge_inv_initial:
  "merge_inv kfts kvector
     \<lparr>uniqueResults = [], seenIds = {}, similarityCount = 0, ftsCount = 0\<rparr>"
  by (simp add: merge_inv_def)

lemma merge_inv_considerResult:
  assumes "merge_inv kfts kvector st"
  shows "merge_inv kfts kvector (considerResult kfts kvector result st)"
  using assms unfolding merge_inv_def considerResult_def
  by (auto simp: image_subset_iff)

lemma merge_inv_mergeLoop:
  "merge_inv kfts kvector st \<Longrightarrow>
     \<exists>st'. merge_inv kfts kvector st' \<and> mergeLoop kfts kvector res st = uniqueResults st'"
proof (induction res arbitrary: st)
  case Nil
  then show ?case by auto
next
  case (Cons result rest)
  let ?st = "considerResult kfts kvector result st"
  have inv: "merge_inv kfts kvector ?st"
    using Cons.prems by (rule merge_inv_considerResult)
  show ?case
  proof (cases "similarityCount ?st + ftsCount ?st = kfts + kvector")
    case True
    then show ?thesis using inv by (auto simp: Let_def)
  next
    case False
    then show ?thesis using Cons.IH [OF inv] by (simp add: Let_def)
  qed
qed

text \<open>
  Claim C3: for every sequence of results and all quotas \<open>kfts\<close> and \<open>kvector\<close>, the output
  of \<open>removeDuplicates\<close> has at most \<open>kfts + kvector\<close> results, no two of them with the
  same document identifier, at most \<open>kvector\<close> of them tagged \<open>similarity\<close> and at most
  \<open>kfts\<close> of them tagged \<open>fulltextsearch\<close>.
\<close>

theorem removeDuplicates_quotas:
  "length (removeDuplicates res kfts kvector) \<le> kfts + kvector
   \<and> distinct (map (doc_id \<circ> fst) (removeDuplicates res kfts kvector))
   \<and> length (filter (\<lambda>r. searchtype (fst r) = Some (JStr ''similarity''))
               (removeDuplicates res kfts kvector)) \<le> kvector
   \<and> length (filter (\<lambda>r. searchtype (fst r) = Some (JStr ''fulltextsearch''))
               (removeDuplicates res kfts kvector)) \<le> kfts"
proof -
  obtain st' where inv: "merge_inv kfts kvector st'"
    and out: "removeDuplicates res kfts kvector = uniqueResults st'"
    using merge_inv_mergeLoop [OF merge_inv_initial] unfolding removeDuplicates_def by blast
  show ?thesis using inv unfolding out merge_inv_def by linarith
qed

text \<open>
  Claim C5 says that the full-text results 1, 2, 3 followed by the similarity results
  2, 4, 5, with both quotas 2, merge to 1, 2, 4. As stated it fails: after 4 the
  counters add up to 3, not to 4, so the loop goes on and accepts 5.
\<close>

theorem removeDuplicates_example_counterexample:
  "map (doc_id \<circ> fst)
     (removeDuplicates
        ([ftsDoc ''1'' ''a'' (7::nat), ftsDoc ''2'' ''b'' 6, ftsDoc ''3'' ''c'' 5]
         @ [similarityDoc ''2'' ''b'' 9, similarityDoc ''4'' ''d'' 8, similarityDoc ''5'' ''e'' 7])
        2 2)
   \<noteq> [Some ''1'', Some ''2'', Some ''4'']"
  by (simp add: removeDuplicates_def considerResult_def searchtype_def ftsDoc_def
      similarityDoc_def Let_def)

text \<open>
  Claim C5 as amended: the merge of these two streams under the quotas 2 and 2 is
  1, 2, 4, 5, whatever the contents and the scores. The identifier 2 is taken by the
  full-text search, which comes first; 3 is over the full-text quota; the similarity
  search gives 4 and 5, and with 5 the counters add up to \<open>kfts + kvector\<close>.
\<close>

theorem removeDuplicates_example:
  "removeDuplicates
     ([ftsDoc ''1'' c1 s1, ftsDoc ''2'' c2 s2, ftsDoc ''3'' c3 s3]
      @ [similarityDoc ''2'' c4 s4, similarityDoc ''4'' c5 s5, similarityDoc ''5'' c6 s6])
     2 2
   = [ftsDoc ''1'' c1 s1, ftsDoc ''2'' c2 s2, similarityDoc ''4'' c5 s5,
      similarityDoc ''5'' c6 s6]"
  by (simp add: removeDuplicates_def considerResult_def searchtype_def ftsDoc_def
      similarityDoc_def Let_def)

end
